theory Spec2Isabelle
  imports Main "HOL-Library.Char_ord" "HOL-Library.List_Lexorder"
begin

section \<open>Batch embeddings (backend/apps/rag/batch\_utils.py)\<close>

text \<open>
  A shallow embedding of \<^verbatim>\<open>batch_utils.py\<close>. Python names lose their leading
  underscore (\<^verbatim>\<open>_batch_iterator\<close> is \<open>batch_iterator\<close>). What the module takes
  from outside is a parameter of the model:
  \<^item> the tokenizer library (\<open>tiktoken\<close>) is a record of its three entry points;
  \<^item> the provider (the \<open>OpenAI\<close> client and the \<open>requests.post\<close> endpoint, both built
    from \<open>key\<close> and \<open>url\<close>) is a record of operations on a provider state;
  \<^item> an output file is given by its lines as \<open>json.loads\<close> reads them, and the random
    \<open>uuid4().hex\<close> is a parameter.
  A text is the list of its characters, one per code point, so \<open>len\<close> is \<open>length\<close>.
  Logging and the duration of \<open>sleep\<close> are not modelled.
\<close>

subsection \<open>Exceptions and JSON values\<close>

text \<open>Every exception below is a subclass of Python's \<open>Exception\<close>.\<close>

datatype exn =
    KeyError string
  | TypeError
  | ValueError
  | JSONDecodeError
  | RuntimeError string
  | APIError string
  | HTTPError string
  | GenericException string
  | RetryError exn

text \<open>
  What \<open>json.loads\<close> returns. A float is named by the decimal mantissa and exponent of
  its literal; the program never computes with one. An object holds its items, keys
  distinct.
\<close>

datatype json =
    JNull
  | JBool bool
  | JInt int
  | JFloat int int
  | JStr string
  | JArr "json list"
  | JObj "(string \<times> json) list"

text \<open>\<open>v[key]\<close> for a string key.\<close>

fun subscript :: "json \<Rightarrow> string \<Rightarrow> exn + json" where
  "subscript (JObj kvs) key =
     (case map_of kvs key of None \<Rightarrow> Inl (KeyError key) | Some v \<Rightarrow> Inr v)"
| "subscript _ key = Inl TypeError"

text \<open>\<open>for x in v\<close>: the elements of a list, the characters of a string, the keys of a dict.\<close>

fun iterate :: "json \<Rightarrow> exn + json list" where
  "iterate (JArr xs) = Inr xs"
| "iterate (JStr s) = Inr (map (\<lambda>c. JStr [c]) s)"
| "iterate (JObj kvs) = Inr (map (\<lambda>kv. JStr (fst kv)) kvs)"
| "iterate _ = Inl TypeError"

text \<open>Running a fallible function over a list, stopping at the first exception.\<close>

fun map_exn :: "('a \<Rightarrow> exn + 'b) \<Rightarrow> 'a list \<Rightarrow> exn + 'b list" where
  "map_exn f [] = Inr []"
| "map_exn f (x # xs) =
     (case f x of
        Inl e \<Rightarrow> Inl e
      | Inr y \<Rightarrow> (case map_exn f xs of Inl e \<Rightarrow> Inl e | Inr ys \<Rightarrow> Inr (y # ys)))"

subsection \<open>Strings\<close>

text \<open>\<open>str(n)\<close> for a non-negative integer.\<close>

definition digit_char :: "nat \<Rightarrow> char" where
  "digit_char d = ''0123456789'' ! d"

function str_nat :: "nat \<Rightarrow> string" where
  "str_nat n = (if n < 10 then [digit_char n] else str_nat (n div 10) @ [digit_char (n mod 10)])"
  by pat_completeness auto
termination
  by (relation "measure id") auto

declare str_nat.simps [simp del]

subsection \<open>Token counter\<close>

text \<open>
  The tokenizer library: \<open>tiktoken.encoding_for_model\<close>, \<open>tiktoken.get_encoding\<close> and
  \<open>Encoding.encode\<close>. Any of them may raise; \<open>encode\<close> raises \<open>ValueError\<close> on a text
  that spells a special token such as \<^verbatim>\<open><|endoftext|>\<close>.
\<close>

record 'enc tiktoken =
  encoding_for_model :: "string \<Rightarrow> exn + 'enc"
  get_encoding :: "string \<Rightarrow> exn + 'enc"
  encode :: "'enc \<Rightarrow> string \<Rightarrow> exn + nat list"

text \<open>\<open>lambda text: len(func.encode(text))\<close>\<close>

definition len_encode :: "'enc tiktoken \<Rightarrow> 'enc \<Rightarrow> string \<Rightarrow> exn + int" where
  "len_encode tk func text =
     (case encode tk func text of Inl e \<Rightarrow> Inl e | Inr toks \<Rightarrow> Inr (int (length toks)))"

text \<open>
  \<open>lambda text: int(len(text) / 4)\<close>. The float quotient of a length below \<open>2^53\<close> by 4
  is exact, so the truncation is the integer quotient.
\<close>

definition rough_estimate :: "string \<Rightarrow> exn + int" where
  "rough_estimate text = Inr (int (length text) div 4)"

definition get_token_count :: "'enc tiktoken \<Rightarrow> string \<Rightarrow> (string \<Rightarrow> exn + int)" where
  "get_token_count tk model =
     (case encoding_for_model tk model of
        Inr func \<Rightarrow> len_encode tk func
      | Inl e \<Rightarrow>
          (case get_encoding tk ''cl100k_base'' of
             Inr func \<Rightarrow> len_encode tk func
           | Inl e' \<Rightarrow> rough_estimate))"

subsection \<open>Request chunks\<close>

text \<open>One line of a batch file: the dict that \<open>_request_iterator\<close> serialises.\<close>

record request =
  req_custom_id :: string
  req_method :: string
  req_url :: string
  req_model :: string
  req_input :: "string list"

text \<open>
  A batch payload, \<open>b"\n".join(...)\<close> of the serialised requests, is kept as the list of
  its lines; the empty list is the empty byte string.
\<close>

type_synonym payload = "request list"

text \<open>\<open>for i in range(0, len(lst), chunk_size): yield i, lst[i : i + chunk_size]\<close>, for a positive step.\<close>

function texts_range :: "nat \<Rightarrow> nat \<Rightarrow> string list \<Rightarrow> (nat \<times> string list) list" where
  "texts_range c i lst =
     (if c = 0 \<or> length lst \<le> i then []
      else (i, take c (drop i lst)) # texts_range c (i + c) lst)"
  by pat_completeness auto
termination
  by (relation "measure (\<lambda>(c, i, lst). length lst - i)") auto

declare texts_range.simps [simp del]

text \<open>\<open>range\<close> raises \<open>ValueError\<close> on a zero step and is empty on a negative one.\<close>

definition texts_iterator :: "string list \<Rightarrow> int \<Rightarrow> exn + (nat \<times> string list) list" where
  "texts_iterator lst chunk_size =
     (if chunk_size = 0 then Inl ValueError
      else if chunk_size < 0 then Inr []
      else Inr (texts_range (nat chunk_size) 0 lst))"

definition make_custom_id :: "string \<Rightarrow> nat \<Rightarrow> nat \<Rightarrow> string" where
  "make_custom_id uuid batch_idx request_idx =
     ''batch_'' @ uuid @ ''_'' @ str_nat batch_idx @ ''_'' @ str_nat request_idx"

definition make_request :: "string \<Rightarrow> string \<Rightarrow> nat \<Rightarrow> nat \<times> string list \<Rightarrow> request" where
  "make_request model uuid batch_idx chunk =
     \<lparr>req_custom_id = make_custom_id uuid batch_idx (fst chunk),
      req_method = ''POST'',
      req_url = ''/v1/embeddings'',
      req_model = model,
      req_input = snd chunk\<rparr>"

definition request_iterator ::
  "string list \<Rightarrow> string \<Rightarrow> string \<Rightarrow> nat \<Rightarrow> int \<Rightarrow> exn + payload" where
  "request_iterator texts model uuid batch_idx chunk_size =
     (case texts_iterator texts chunk_size of
        Inl e \<Rightarrow> Inl e
      | Inr chunks \<Rightarrow> Inr (map (make_request model uuid batch_idx) chunks))"

subsection \<open>Batch planner\<close>

text \<open>
  A generator is modelled by what it yields and how it ends: the items in order, and the
  exception that stops it, if any. The planner computes without touching the provider,
  so running it ahead of the consumer changes no outcome but which of two exceptions is
  seen first; \<open>request_async_embedding\<close> below keeps the consumer's exception first.
\<close>

type_synonym 'a gen = "'a list \<times> exn option"

definition gen_cons :: "'a \<Rightarrow> 'a gen \<Rightarrow> 'a gen" where
  "gen_cons x g = (x # fst g, snd g)"

definition yield_batch ::
  "string list \<Rightarrow> string \<Rightarrow> string \<Rightarrow> nat \<Rightarrow> int \<Rightarrow> (nat \<times> payload) gen \<Rightarrow> (nat \<times> payload) gen" where
  "yield_batch current_request model uuid batch_idx chunk_size rest =
     (case request_iterator current_request model uuid batch_idx chunk_size of
        Inl e \<Rightarrow> ([], Some e)
      | Inr p \<Rightarrow> gen_cons (batch_idx, p) rest)"

text \<open>The loop of \<open>_batch_iterator\<close> with its three variables, and the flush after it.\<close>

fun batch_loop ::
  "(string \<Rightarrow> exn + int) \<Rightarrow> string \<Rightarrow> string \<Rightarrow> int \<Rightarrow> int \<Rightarrow>
   string list \<Rightarrow> string list \<Rightarrow> int \<Rightarrow> nat \<Rightarrow> (nat \<times> payload) gen" where
  "batch_loop text2tokens model uuid token_limit chunk_size [] current_request current_tokens batch_idx =
     (if current_request \<noteq> []
      then yield_batch current_request model uuid batch_idx chunk_size ([], None)
      else ([], None))"
| "batch_loop text2tokens model uuid token_limit chunk_size (text # texts) current_request current_tokens batch_idx =
     (case text2tokens text of
        Inl e \<Rightarrow> ([], Some e)
      | Inr tokens \<Rightarrow>
          if current_tokens + tokens > token_limit
          then yield_batch current_request model uuid batch_idx chunk_size
                 (batch_loop text2tokens model uuid token_limit chunk_size texts
                    [text] tokens (batch_idx + 1))
          else batch_loop text2tokens model uuid token_limit chunk_size texts
                 (current_request @ [text]) (current_tokens + tokens) batch_idx)"

definition batch_iterator ::
  "'enc tiktoken \<Rightarrow> string list \<Rightarrow> string \<Rightarrow> string \<Rightarrow> int \<Rightarrow> int \<Rightarrow> (nat \<times> payload) gen" where
  "batch_iterator tk texts model uuid token_limit chunk_size =
     batch_loop (get_token_count tk model) model uuid token_limit chunk_size texts [] 0 0"

subsection \<open>Provider and library\<close>

datatype status =
    Validating | Failed | InProgress | Finalizing | Completed | Expired | Cancelling | Cancelled

fun status_name :: "status \<Rightarrow> string" where
  "status_name Validating = ''validating''"
| "status_name Failed = ''failed''"
| "status_name InProgress = ''in_progress''"
| "status_name Finalizing = ''finalizing''"
| "status_name Completed = ''completed''"
| "status_name Expired = ''expired''"
| "status_name Cancelling = ''cancelling''"
| "status_name Cancelled = ''cancelled''"

text \<open>
  The provider, as the module calls it. Each call takes the provider's state and returns
  a value or an exception, and the next state.
  \<^item> \<open>files_create name batch\<close>: \<open>client.files.create(file=(name, batch), purpose="batch")\<close>,
    returning the file's id;
  \<^item> \<open>batches_create input_file_id\<close>: \<open>client.batches.create\<close> for the endpoint
    \<open>/v1/embeddings\<close> and the window \<open>24h\<close>, returning the job's id;
  \<^item> \<open>batches_retrieve job_id\<close>: the job's \<open>status\<close> and \<open>output_file_id\<close>;
  \<^item> \<open>files_content file_id\<close>: \<open>client.files.content(file_id).text\<close>, given as its
    \<open>output_lines\<close>;
  \<^item> \<open>post_embeddings texts model\<close>: \<open>requests.post\<close>, \<open>raise_for_status\<close> and
    \<open>r.json()\<close> of the synchronous endpoint.
\<close>

text \<open>
  The text of an output file, as the module reads it: the pieces of
  \<open>output_content.strip().split("\n")\<close>, each as \<open>json.loads\<close> reads it, \<open>None\<close> where it
  raises \<open>JSONDecodeError\<close>. A text that is empty once stripped has the single piece
  \<open>""\<close>, which \<open>json.loads\<close> rejects: it is the empty list here.
\<close>

type_synonym output_lines = "json option list"

record 's client =
  files_create :: "string \<Rightarrow> payload \<Rightarrow> 's \<Rightarrow> (exn + string) \<times> 's"
  batches_create :: "string \<Rightarrow> 's \<Rightarrow> (exn + string) \<times> 's"
  batches_retrieve :: "string \<Rightarrow> 's \<Rightarrow> (exn + status \<times> string option) \<times> 's"
  files_content :: "string \<Rightarrow> 's \<Rightarrow> (exn + output_lines) \<times> 's"
  post_embeddings :: "string list \<Rightarrow> string \<Rightarrow> 's \<Rightarrow> (exn + json) \<times> 's"

text \<open>
  The standard library: what \<open>sorted\<close> does with two or more keys that are not all
  strings (numbers compare, mixed types raise \<open>TypeError\<close>) is left open. It is given
  the records paired with their keys.
\<close>

record pylib =
  sorted_other :: "(json \<times> json) list \<Rightarrow> exn + json list"

definition bind_exn :: "exn + 'a \<Rightarrow> ('a \<Rightarrow> exn + 'b) \<Rightarrow> exn + 'b" where
  "bind_exn x f = (case x of Inl e \<Rightarrow> Inl e | Inr v \<Rightarrow> f v)"

subsection \<open>Result assembly\<close>

fun is_JStr :: "json \<Rightarrow> bool" where
  "is_JStr (JStr s) = True"
| "is_JStr _ = False"

fun str_of :: "json \<Rightarrow> string" where
  "str_of (JStr s) = s"
| "str_of _ = []"

text \<open>
  \<open>sorted(raw_results, key=itemgetter("custom_id"))\<close>: the keys are taken from every
  record first, then the records are sorted by key, stably. Strings compare by code
  point, lexicographically. One record or none is compared with nothing.
\<close>

definition sorted_by_custom_id :: "pylib \<Rightarrow> json list \<Rightarrow> exn + json list" where
  "sorted_by_custom_id lib raw_results =
     bind_exn (map_exn (\<lambda>r. subscript r ''custom_id'') raw_results) (\<lambda>keys.
       if list_all is_JStr keys
       then Inr (map snd (sort_key (\<lambda>kr. str_of (fst kr)) (zip keys raw_results)))
       else if length raw_results \<le> 1 then Inr raw_results
       else sorted_other lib (zip keys raw_results))"

text \<open>\<open>[data["embedding"] for data in result["response"]["body"]["data"]]\<close>\<close>

definition result_embeddings :: "json \<Rightarrow> exn + json list" where
  "result_embeddings result =
     bind_exn (subscript result ''response'') (\<lambda>response.
     bind_exn (subscript response ''body'') (\<lambda>body.
     bind_exn (subscript body ''data'') (\<lambda>d.
     bind_exn (iterate d) (map_exn (\<lambda>data. subscript data ''embedding'')))))"

text \<open>\<open>map(loads, output_content.strip().split("\n"))\<close>, consumed by \<open>sorted\<close>.\<close>

definition parse_line :: "json option \<Rightarrow> exn + json" where
  "parse_line l = (case l of None \<Rightarrow> Inl JSONDecodeError | Some v \<Rightarrow> Inr v)"

definition load_lines :: "output_lines \<Rightarrow> exn + json list" where
  "load_lines output_content =
     (if output_content = [] then Inl JSONDecodeError else map_exn parse_line output_content)"

text \<open>Lines 140 to 146 of \<open>_process_one_batch\<close>: parse, sort, flatten.\<close>

definition assemble :: "pylib \<Rightarrow> output_lines \<Rightarrow> exn + json list" where
  "assemble lib output_content =
     bind_exn (load_lines output_content) (\<lambda>raw_results.
     bind_exn (sorted_by_custom_id lib raw_results) (\<lambda>sorted_results.
     bind_exn (map_exn result_embeddings sorted_results) (\<lambda>embeddings.
     Inr (concat embeddings))))"

subsection \<open>Submitting and polling one batch\<close>

text \<open>\<open>output_file_id and status == "completed"\<close>: the id to fetch, if any.\<close>

definition ready :: "string option \<Rightarrow> status \<Rightarrow> string option" where
  "ready output_file_id st =
     (case output_file_id of
        None \<Rightarrow> None
      | Some fid \<Rightarrow> if fid \<noteq> [] \<and> st = Completed then Some fid else None)"

text \<open>
  The \<open>while True\<close> loop. It may run forever: the result \<open>None\<close> is the loop that never
  ends, \<open>Some\<close> holds the value returned or the exception raised, and the provider's
  state.
\<close>

partial_function (option) poll_loop ::
  "'s client \<Rightarrow> pylib \<Rightarrow> string \<Rightarrow> 's \<Rightarrow> ((exn + json list) \<times> 's) option" where
  "poll_loop client lib job_id s =
     (case batches_retrieve client job_id s of
        (Inl e, s1) \<Rightarrow> Some (Inl e, s1)
      | (Inr (st, output_file_id), s1) \<Rightarrow>
          (case ready output_file_id st of
             Some fid \<Rightarrow>
               (case files_content client fid s1 of
                  (Inl e, s2) \<Rightarrow> Some (Inl e, s2)
                | (Inr output_content, s2) \<Rightarrow> Some (assemble lib output_content, s2))
           | None \<Rightarrow>
               if st = Failed \<or> st = Expired \<or> st = Cancelled
               then Some (Inl (RuntimeError (''Batch Job Failed: '' @ status_name st)), s1)
               else poll_loop client lib job_id s1))"

text \<open>The body of \<open>_process_one_batch\<close>: one attempt. Its handler logs and re-raises.\<close>

definition process_attempt ::
  "'s client \<Rightarrow> pylib \<Rightarrow> string \<Rightarrow> nat \<Rightarrow> payload \<Rightarrow> 's \<Rightarrow> ((exn + json list) \<times> 's) option" where
  "process_attempt client lib uuid batch_idx batch s =
     (case files_create client (''batch_'' @ uuid @ ''_'' @ str_nat batch_idx @ ''.jsonl'') batch s of
        (Inl e, s1) \<Rightarrow> Some (Inl e, s1)
      | (Inr input_file, s1) \<Rightarrow>
          (case batches_create client input_file s1 of
             (Inl e, s2) \<Rightarrow> Some (Inl e, s2)
           | (Inr batch_job, s2) \<Rightarrow> poll_loop client lib batch_job s2))"

text \<open>
  \<open>@retry(stop=stop_after_attempt(n), wait=...)\<close> of \<open>tenacity\<close>, which retries on any
  \<open>Exception\<close>: the call is repeated until it returns, and after the \<open>n\<close>th failed
  attempt \<open>RetryError\<close> is raised. The waits between attempts are not modelled.
\<close>

function retry_call ::
  "nat \<Rightarrow> nat \<Rightarrow> ('s \<Rightarrow> ((exn + 'a) \<times> 's) option) \<Rightarrow> 's \<Rightarrow> ((exn + 'a) \<times> 's) option" where
  "retry_call max_attempt attempt_number f s =
     (case f s of
        None \<Rightarrow> None
      | Some (Inr v, s') \<Rightarrow> Some (Inr v, s')
      | Some (Inl e, s') \<Rightarrow>
          if attempt_number \<ge> max_attempt then Some (Inl (RetryError e), s')
          else retry_call max_attempt (attempt_number + 1) f s')"
  by pat_completeness auto
termination
  by (relation "measure (\<lambda>(m, k, f, s). m - k)") auto

declare retry_call.simps [simp del]

definition process_one_batch ::
  "'s client \<Rightarrow> pylib \<Rightarrow> string \<Rightarrow> nat \<Rightarrow> payload \<Rightarrow> 's \<Rightarrow> ((exn + json list) \<times> 's) option" where
  "process_one_batch client lib uuid batch_idx batch =
     retry_call 5 1 (process_attempt client lib uuid batch_idx batch)"

subsection \<open>The asynchronous path\<close>

text \<open>
  The comprehension of \<open>_request_async_embedding\<close> over the planner's batches: each batch
  is processed to its end before the next one, and the first exception ends the run.
  \<open>ending\<close> is how the planner stops after its last batch.
\<close>

fun process_batches ::
  "'s client \<Rightarrow> pylib \<Rightarrow> string \<Rightarrow> (nat \<times> payload) list \<Rightarrow> exn option \<Rightarrow> 's \<Rightarrow>
   ((exn + json list) \<times> 's) option" where
  "process_batches client lib uuid [] ending s =
     (case ending of None \<Rightarrow> Some (Inr [], s) | Some e \<Rightarrow> Some (Inl e, s))"
| "process_batches client lib uuid (b # rest) ending s =
     (case process_one_batch client lib uuid (fst b) (snd b) s of
        None \<Rightarrow> None
      | Some (Inl e, s') \<Rightarrow> Some (Inl e, s')
      | Some (Inr embeddings, s') \<Rightarrow>
          (case process_batches client lib uuid rest ending s' of
             None \<Rightarrow> None
           | Some (Inl e, s'') \<Rightarrow> Some (Inl e, s'')
           | Some (Inr later, s'') \<Rightarrow> Some (Inr (embeddings @ later), s'')))"

text \<open>\<open>_batch_iterator\<close> is called without \<open>chunk_size\<close>, so with its default 2048.\<close>

definition request_async_embedding ::
  "'enc tiktoken \<Rightarrow> 's client \<Rightarrow> pylib \<Rightarrow> string \<Rightarrow> string \<Rightarrow> string list \<Rightarrow> int \<Rightarrow> 's \<Rightarrow>
   ((exn + json list) \<times> 's) option" where
  "request_async_embedding tk client lib uuid model texts token_limit s =
     (let g = batch_iterator tk texts model uuid token_limit 2048
      in process_batches client lib uuid (fst g) (snd g) s)"

subsection \<open>The synchronous path\<close>

fun is_substring :: "string \<Rightarrow> string \<Rightarrow> bool" where
  "is_substring key [] = (key = [])"
| "is_substring key (c # cs) = (take (length key) (c # cs) = key \<or> is_substring key cs)"

text \<open>\<open>key in v\<close> for a string key: a key of a dict, an element of a list, a substring of a string.\<close>

fun contains_key :: "json \<Rightarrow> string \<Rightarrow> exn + bool" where
  "contains_key (JObj kvs) key = Inr (key \<in> set (map fst kvs))"
| "contains_key (JArr xs) key = Inr (JStr key \<in> set xs)"
| "contains_key (JStr s) key = Inr (is_substring key s)"
| "contains_key _ key = Inl TypeError"

definition sync_attempt :: "'s client \<Rightarrow> string list \<Rightarrow> string \<Rightarrow> 's \<Rightarrow> (exn + json list) \<times> 's" where
  "sync_attempt client texts model s =
     (case post_embeddings client texts model s of
        (Inl e, s1) \<Rightarrow> (Inl e, s1)
      | (Inr data, s1) \<Rightarrow>
          (bind_exn (contains_key data ''data'') (\<lambda>found.
             if found
             then bind_exn (subscript data ''data'') (\<lambda>d.
                  bind_exn (iterate d) (map_exn (\<lambda>elem. subscript elem ''embedding'')))
             else Inl (GenericException ''Something went wrong :/'')), s1))"

definition request_sync_embedding ::
  "'s client \<Rightarrow> string list \<Rightarrow> string \<Rightarrow> 's \<Rightarrow> ((exn + json list) \<times> 's) option" where
  "request_sync_embedding client texts model =
     retry_call 5 1 (\<lambda>s. Some (sync_attempt client texts model s))"

subsection \<open>Orchestrator\<close>

text \<open>
  \<open>try: ... except Exception as e: log.exception(e); return None\<close> around a body that
  returns a list. The result is what reaches the caller: \<open>Inl\<close> would be an exception
  that escapes.
\<close>

definition except_return_None :: "exn + 'a \<Rightarrow> exn + 'a option" where
  "except_return_None r = (case r of Inl e \<Rightarrow> Inr None | Inr v \<Rightarrow> Inr (Some v))"

definition text_length :: "string list \<Rightarrow> int" where
  "text_length texts = sum_list (map (\<lambda>text. int (length text)) texts)"

definition generate_openai_batch_embeddings ::
  "'enc tiktoken \<Rightarrow> 's client \<Rightarrow> pylib \<Rightarrow> string \<Rightarrow> string \<Rightarrow> string list \<Rightarrow> 's \<Rightarrow>
   ((exn + json list option) \<times> 's) option" where
  "generate_openai_batch_embeddings tk client lib uuid model texts s =
     map_option (\<lambda>(r, s'). (except_return_None r, s'))
       (if text_length texts < 500000
        then request_sync_embedding client texts model s
        else request_async_embedding tk client lib uuid model texts 1000000 s)"

subsection \<open>Notions used in the statements\<close>

text \<open>The texts of a batch: the inputs of its request chunks, in order.\<close>

definition payload_texts :: "payload \<Rightarrow> string list" where
  "payload_texts batch = concat (map req_input batch)"

text \<open>
  A batch of texts respects the limit: every text has a count, and the counts add up to
  at most the limit unless the batch is one text that alone is over it.
\<close>

definition within_limit :: "(string \<Rightarrow> exn + int) \<Rightarrow> int \<Rightarrow> string list \<Rightarrow> bool" where
  "within_limit t2t limit ts =
     (\<exists>ns. map t2t ts = map Inr ns \<and>
           (sum_list ns \<le> limit \<or> (length ts = 1 \<and> limit < sum_list ns)))"


text \<open>
  A result record that the flattening accepts: it has a string \<open>custom_id\<close> and
  \<open>response.body.data\<close> holds entries with an \<open>embedding\<close> each.
\<close>

definition readable_result :: "json \<Rightarrow> bool" where
  "readable_result r =
     ((case subscript r ''custom_id'' of Inr k \<Rightarrow> is_JStr k | Inl e \<Rightarrow> False) \<and>
      (case result_embeddings r of Inr embs \<Rightarrow> True | Inl e \<Rightarrow> False))"

definition embeddings_of :: "json \<Rightarrow> json list" where
  "embeddings_of r = (case result_embeddings r of Inr embs \<Rightarrow> embs | Inl e \<Rightarrow> [])"

definition custom_id_of :: "json \<Rightarrow> string" where
  "custom_id_of r = (case subscript r ''custom_id'' of Inr k \<Rightarrow> str_of k | Inl e \<Rightarrow> [])"

text \<open>
  \<open>batches_return client lib uuid bs s ess s'\<close>: from the state \<open>s\<close>, processing the
  batches \<open>bs\<close> one after the other returns the embedding lists \<open>ess\<close>, one per batch,
  and leaves the provider in \<open>s'\<close>.
\<close>

fun batches_return ::
  "'s client \<Rightarrow> pylib \<Rightarrow> string \<Rightarrow> (nat \<times> payload) list \<Rightarrow> 's \<Rightarrow> json list list \<Rightarrow> 's \<Rightarrow> bool" where
  "batches_return client lib uuid [] s ess s' = (ess = [] \<and> s' = s)"
| "batches_return client lib uuid (b # bs) s ess s' =
     (case process_one_batch client lib uuid (fst b) (snd b) s of
        Some (Inr embs, s1) \<Rightarrow>
          (case ess of [] \<Rightarrow> False | es # ess' \<Rightarrow> es = embs \<and> batches_return client lib uuid bs s1 ess' s')
      | _ \<Rightarrow> False)"

subsection \<open>Concrete tokenizers, providers and inputs\<close>

text \<open>No tokenizer can be loaded: both lookups raise, the rough estimate is used.\<close>

definition no_tiktoken :: "unit tiktoken" where
  "no_tiktoken =
     \<lparr>encoding_for_model = (\<lambda>model. Inl (KeyError model)),
      get_encoding = (\<lambda>name. Inl (GenericException ''encoding not available'')),
      encode = (\<lambda>func text. Inr [])\<rparr>"


definition std_lib :: pylib where
  "std_lib = \<lparr>sorted_other = (\<lambda>keyed. Inl TypeError)\<rparr>"

text \<open>A stand-in for the embedding of a text: the vector of its character codes.\<close>

definition embedding_of :: "string \<Rightarrow> json" where
  "embedding_of text = JArr (map (\<lambda>c. JInt (of_char c)) text)"

definition embedding_data :: "string list \<Rightarrow> json" where
  "embedding_data texts = JArr (map (\<lambda>text. JObj [(''embedding'', embedding_of text)]) texts)"

text \<open>The result line of a request chunk: one embedding per text, in the chunk's order.\<close>

definition result_line :: "request \<Rightarrow> json" where
  "result_line r =
     JObj [(''custom_id'', JStr (req_custom_id r)),
           (''response'', JObj [(''body'', JObj [(''data'', embedding_data (req_input r))])])]"

text \<open>
  A provider that answers every request chunk at once. Its state is the batch file
  uploaded last; the output file has the result lines in the reverse order of the
  requests. The synchronous endpoint answers in input order.
\<close>

definition echo_client :: "payload client" where
  "echo_client =
     \<lparr>files_create = (\<lambda>name batch s. (Inr (''file-'' @ name), batch)),
      batches_create = (\<lambda>input_file_id s. (Inr (''job-'' @ input_file_id), s)),
      batches_retrieve = (\<lambda>job_id s. (Inr (Completed, Some (''out-'' @ job_id)), s)),
      files_content = (\<lambda>file_id s. (Inr (map (\<lambda>r. Some (result_line r)) (rev s)), s)),
      post_embeddings = (\<lambda>texts model s. (Inr (JObj [(''data'', embedding_data texts)]), s))\<rparr>"

text \<open>
  A provider whose state counts the jobs created so far and whose polls answer by the
  number of the latest job. Every output file has the given lines; the synchronous
  endpoint is down.
\<close>

definition scripted_client :: "(nat \<Rightarrow> status \<times> string option) \<Rightarrow> output_lines \<Rightarrow> nat client" where
  "scripted_client script content =
     \<lparr>files_create = (\<lambda>name batch n. (Inr ''file-in'', n)),
      batches_create = (\<lambda>input_file_id n. (Inr ''job'', Suc n)),
      batches_retrieve = (\<lambda>job_id n. (Inr (script n), n)),
      files_content = (\<lambda>file_id n. (Inr content, n)),
      post_embeddings = (\<lambda>texts model n. (Inl (HTTPError ''503''), n))\<rparr>"

definition one_result :: output_lines where
  "one_result =
     [Some (JObj [(''custom_id'', JStr ''batch_run_0_0''),
                  (''response'', JObj [(''body'', JObj [(''data'',
                     JArr [JObj [(''embedding'', JArr [JFloat 25 (-2), JFloat (-5) (-1)])]])])])])]"


text \<open>The first job completes, every later one expires.\<close>

definition expires_later :: "nat \<Rightarrow> status \<times> string option" where
  "expires_later n = (if n = 1 then (Completed, Some ''file-out'') else (Expired, None))"

text \<open>Every job is reported completed, with no output file.\<close>

definition completed_without_output :: "nat \<Rightarrow> status \<times> string option" where
  "completed_without_output n = (Completed, None)"

definition run_id :: string where
  "run_id = ''0f8fad5bd9cb469fa16570867728950e''"


text \<open>Every job completes.\<close>

definition always_completed :: "nat \<Rightarrow> status \<times> string option" where
  "always_completed n = (Completed, Some ''file-out'')"

text \<open>The five sentences of the module's own test, and a long text followed by a short one.\<close>

definition five_sentences :: "string list" where
  "five_sentences =
     [''This is the first test sentence.'', ''Here is another sentence for testing.'',
      ''And one more to make sure everything works.'',
      ''Let us add a fourth sentence for good measure.'',
      ''Finally, a fifth sentence to really test the batch processing.'']"

definition long_and_short :: "string list" where
  "long_and_short = [replicate 4000000 CHR ''a'', ''bbbb'']"

text \<open>10241 texts: six request chunks in one batch.\<close>

definition many_texts :: "string list" where
  "many_texts = replicate 10240 ''first'' @ [''last'']"

section \<open>Properties of the token counter\<close>






section \<open>Properties of the batch planner\<close>

text \<open>
  C4: the planner is to close a batch only when it holds a text. The code closes it
  whenever the limit would be passed: with the tokenizer unavailable, a first text of
  4,000,004 characters counts 1,000,001 tokens, over the limit of 1,000,000, and batch 0
  is yielded with an empty payload before the text goes into batch 1.
\<close>

theorem first_text_over_limit_yields_empty_batch:
  "batch_iterator no_tiktoken [replicate 4000004 CHR ''a''] ''text-embedding-3-small'' run_id 1000000 2048 =
     ([(0, []),
       (1, [\<lparr>req_custom_id = ''batch_0f8fad5bd9cb469fa16570867728950e_1_0'', req_method = ''POST'',
             req_url = ''/v1/embeddings'', req_model = ''text-embedding-3-small'',
             req_input = [replicate 4000004 CHR ''a'']\<rparr>])], None)"
  by (simp add: batch_iterator_def no_tiktoken_def get_token_count_def rough_estimate_def
      yield_batch_def request_iterator_def texts_iterator_def texts_range.simps gen_cons_def
      make_request_def make_custom_id_def str_nat.simps digit_char_def run_id_def)

text \<open>The same for any first text whose count is over the limit.\<close>

lemma first_text_over_limit:
  assumes "t2t t = Inr n" and "limit < n" and "0 < chunk_size"
  shows "batch_loop t2t model uuid limit chunk_size (t # texts) [] 0 0 =
           gen_cons (0, []) (batch_loop t2t model uuid limit chunk_size texts [t] n 1)"
  using assms
  by (simp add: yield_batch_def request_iterator_def texts_iterator_def texts_range.simps)

lemma texts_range_concat:
  "0 < c \<Longrightarrow> concat (map snd (texts_range c i lst)) = drop i lst"
proof (induction c i lst rule: texts_range.induct)
  case (1 c i lst)
  show ?case
  proof (cases "length lst \<le> i")
    case True
    then show ?thesis by (simp add: texts_range.simps)
  next
    case False
    with 1 have rest: "concat (map snd (texts_range c (i + c) lst)) = drop c (drop i lst)"
      by (simp add: add.commute)
    have "concat (map snd (texts_range c i lst)) =
          take c (drop i lst) @ concat (map snd (texts_range c (i + c) lst))"
      using False 1 by (subst texts_range.simps) simp
    with rest show ?thesis by (simp only: append_take_drop_id)
  qed
qed

lemma request_iterator_texts:
  assumes "request_iterator cur model uuid batch_idx chunk_size = Inr p"
  shows "payload_texts p = (if 0 < chunk_size then cur else [])"
  using assms
  by (auto simp: request_iterator_def texts_iterator_def payload_texts_def make_request_def
      comp_def texts_range_concat split: if_splits)

lemma yield_batch_cases:
  assumes "(bi, p) \<in> set (fst (yield_batch cur model uuid b cs rest))"
  shows "(bi = b \<and> request_iterator cur model uuid b cs = Inr p) \<or> (bi, p) \<in> set (fst rest)"
  using assms by (auto simp: yield_batch_def gen_cons_def split: sum.splits)

lemma within_limit_current:
  assumes "0 \<le> limit" and "map t2t cur = map Inr ns"
    and "sum_list ns \<le> limit \<or> length cur = 1"
    and "request_iterator cur model uuid b cs = Inr p"
  shows "within_limit t2t limit (payload_texts p)"
proof (cases "0 < cs")
  case True
  with assms(4) have "payload_texts p = cur" by (simp add: request_iterator_texts)
  with assms(2,3) show ?thesis unfolding within_limit_def by (intro exI [of _ ns]) auto
next
  case False
  with assms(4) have "payload_texts p = []" by (simp add: request_iterator_texts)
  with assms(1) show ?thesis unfolding within_limit_def by (intro exI [of _ "[]"]) simp
qed

lemma batch_loop_bound:
  assumes "0 \<le> limit"
    and "map t2t cur = map Inr ns"
    and "sum_list ns = ctoks"
    and "ctoks \<le> limit \<or> length cur = 1"
    and "(bi, p) \<in> set (fst (batch_loop t2t model uuid limit cs texts cur ctoks b))"
  shows "within_limit t2t limit (payload_texts p)"
  using assms
proof (induction texts arbitrary: cur ns ctoks b)
  case Nil
  then have "request_iterator cur model uuid b cs = Inr p"
    by (auto dest: yield_batch_cases split: if_splits)
  with Nil show ?case by (auto intro: within_limit_current)
next
  case (Cons t texts)
  show ?case
  proof (cases "t2t t")
    case (Inl e)
    with Cons.prems(5) show ?thesis by simp
  next
    case (Inr tokens)
    show ?thesis
    proof (cases "ctoks + tokens > limit")
      case True
      with Inr Cons.prems(5)
      consider "request_iterator cur model uuid b cs = Inr p"
        | "(bi, p) \<in> set (fst (batch_loop t2t model uuid limit cs texts [t] tokens (b + 1)))"
        by (auto dest: yield_batch_cases)
      then show ?thesis
      proof cases
        case 1
        with Cons.prems show ?thesis by (auto intro: within_limit_current)
      next
        case 2
        show ?thesis
          by (rule Cons.IH [OF Cons.prems(1) _ _ _ 2, of "[tokens]"]) (simp_all add: Inr)
      qed
    next
      case False
      with Inr Cons.prems(5)
      have mem: "(bi, p) \<in> set (fst (batch_loop t2t model uuid limit cs texts (cur @ [t]) (ctoks + tokens) b))"
        by simp
      show ?thesis
        by (rule Cons.IH [OF Cons.prems(1) _ _ _ mem, of "ns @ [tokens]"])
          (use Cons.prems False Inr in simp_all)
    qed
  qed
qed

text \<open>
  C5: for a token limit that is not negative, every batch that \<open>_batch_iterator\<close> yields
  has texts whose counts, by the counter in use, add up to at most \<open>token_limit\<close>,
  unless the batch is exactly one text whose own count is over the limit.
\<close>

theorem batch_within_token_limit:
  assumes "0 \<le> token_limit"
    and "(batch_idx, batch) \<in> set (fst (batch_iterator tk texts model uuid token_limit chunk_size))"
  shows "\<exists>counts. map (get_token_count tk model) (payload_texts batch) = map Inr counts \<and>
           (sum_list counts \<le> token_limit \<or>
            (length (payload_texts batch) = 1 \<and> token_limit < sum_list counts))"
proof -
  have "within_limit (get_token_count tk model) token_limit (payload_texts batch)"
    by (rule batch_loop_bound [OF assms(1) _ _ _ assms(2) [unfolded batch_iterator_def], of "[]"])
      (use assms(1) in simp_all)
  then show ?thesis by (simp add: within_limit_def)
qed

theorem batch_within_token_limit_witness:
  "(0::int) \<le> 5 \<and>
   (0, [\<lparr>req_custom_id = ''batch_0f8fad5bd9cb469fa16570867728950e_0_0'', req_method = ''POST'',
         req_url = ''/v1/embeddings'', req_model = ''text-embedding-3-small'',
         req_input = [''abcdefgh'', ''ijklmnop'']\<rparr>])
     \<in> set (fst (batch_iterator no_tiktoken [''abcdefgh'', ''ijklmnop'', ''qrstuvwx'']
                   ''text-embedding-3-small'' run_id 5 2048)) \<and>
   map (get_token_count no_tiktoken ''text-embedding-3-small'') [''abcdefgh'', ''ijklmnop''] =
     map Inr [2, 2] \<and>
   sum_list [2, 2] \<le> (5::int)"
proof -
  have limit: "(0::int) \<le> 5" by simp
  have yielded:
    "(0, [\<lparr>req_custom_id = ''batch_0f8fad5bd9cb469fa16570867728950e_0_0'', req_method = ''POST'',
         req_url = ''/v1/embeddings'', req_model = ''text-embedding-3-small'',
         req_input = [''abcdefgh'', ''ijklmnop'']\<rparr>])
     \<in> set (fst (batch_iterator no_tiktoken [''abcdefgh'', ''ijklmnop'', ''qrstuvwx'']
                   ''text-embedding-3-small'' run_id 5 2048))"
    by (simp add: batch_iterator_def no_tiktoken_def get_token_count_def rough_estimate_def
        yield_batch_def request_iterator_def texts_iterator_def texts_range.simps gen_cons_def
        make_request_def make_custom_id_def str_nat.simps digit_char_def run_id_def)
  from batch_within_token_limit [OF limit yielded] limit yielded show ?thesis
    by (simp add: payload_texts_def no_tiktoken_def get_token_count_def rough_estimate_def)
qed

section \<open>Request identifiers\<close>

lemmas custom_id_eval = make_custom_id_def str_nat.simps digit_char_def run_id_def

lemma six_chunks:
  "length texts = 10241 \<Longrightarrow>
   texts_range 2048 0 texts =
     [(0, take 2048 texts), (2048, take 2048 (drop 2048 texts)), (4096, take 2048 (drop 4096 texts)),
      (6144, take 2048 (drop 6144 texts)), (8192, take 2048 (drop 8192 texts)),
      (10240, take 2048 (drop 10240 texts))]"
  by (simp add: texts_range.simps)

text \<open>
  C2: the \<open>custom_id\<close>s of a batch, sorted as strings, are to come out in the order the
  chunks were made. A batch of 10241 texts has six chunks, at the offsets 0, 2048, ...,
  10240; as strings, the id ending in \<open>_10240\<close> sorts second, before \<open>_2048\<close>.
\<close>

theorem custom_ids_sort_out_of_order:
  "\<exists>batch. request_iterator (replicate 10241 ''text'') ''text-embedding-3-small'' run_id 0 2048 = Inr batch \<and>
     map req_custom_id batch =
       [''batch_0f8fad5bd9cb469fa16570867728950e_0_0'',
        ''batch_0f8fad5bd9cb469fa16570867728950e_0_2048'',
        ''batch_0f8fad5bd9cb469fa16570867728950e_0_4096'',
        ''batch_0f8fad5bd9cb469fa16570867728950e_0_6144'',
        ''batch_0f8fad5bd9cb469fa16570867728950e_0_8192'',
        ''batch_0f8fad5bd9cb469fa16570867728950e_0_10240''] \<and>
     sort (map req_custom_id batch) =
       [''batch_0f8fad5bd9cb469fa16570867728950e_0_0'',
        ''batch_0f8fad5bd9cb469fa16570867728950e_0_10240'',
        ''batch_0f8fad5bd9cb469fa16570867728950e_0_2048'',
        ''batch_0f8fad5bd9cb469fa16570867728950e_0_4096'',
        ''batch_0f8fad5bd9cb469fa16570867728950e_0_6144'',
        ''batch_0f8fad5bd9cb469fa16570867728950e_0_8192'']"
  by (simp add: request_iterator_def texts_iterator_def six_chunks make_request_def custom_id_eval)

section \<open>Polling and retrying\<close>

lemma poll_loop_never_returns:
  assumes inv: "\<And>s. s \<in> I \<Longrightarrow> \<exists>s'. batches_retrieve c j s = (Inr (Completed, None), s') \<and> s' \<in> I"
    and ret: "poll_loop c lib j s = Some y"
  shows "s \<notin> I"
proof -
  have "c = c \<longrightarrow> j = j \<longrightarrow> s \<notin> I"
  proof (rule poll_loop.raw_induct
      [where P = "\<lambda>c' lib' j' s' y'. c' = c \<longrightarrow> j' = j \<longrightarrow> s' \<notin> I", OF _ ret])
    fix poll :: "'a client \<Rightarrow> pylib \<Rightarrow> string \<Rightarrow> 'a \<Rightarrow> ((exn + json list) \<times> 'a) option"
    fix c' lib' j' t r
    assume IH: "\<And>c' lib' j' t r. poll c' lib' j' t = Some r \<Longrightarrow> c' = c \<longrightarrow> j' = j \<longrightarrow> t \<notin> I"
    assume body: "(case batches_retrieve c' j' t of
        (Inl e, s1) \<Rightarrow> Some (Inl e, s1)
      | (Inr (st, output_file_id), s1) \<Rightarrow>
          (case ready output_file_id st of
             None \<Rightarrow>
               if st = Failed \<or> st = Expired \<or> st = Cancelled
               then Some (Inl (RuntimeError (''Batch Job Failed: '' @ status_name st)), s1)
               else poll c' lib' j' s1
           | Some fid \<Rightarrow>
               (case files_content c' fid s1 of
                  (Inl e, s2) \<Rightarrow> Some (Inl e, s2)
                | (Inr output_content, s2) \<Rightarrow> Some (assemble lib' output_content, s2)))) = Some r"
    show "c' = c \<longrightarrow> j' = j \<longrightarrow> t \<notin> I"
    proof (intro impI notI)
      assume eq: "c' = c" "j' = j" and "t \<in> I"
      with inv obtain t' where t': "batches_retrieve c j t = (Inr (Completed, None), t')" "t' \<in> I"
        by blast
      with body eq have "poll c lib' j t' = Some r" by (simp add: ready_def)
      with IH t'(2) show False by blast
    qed
  qed
  then show ?thesis by simp
qed

lemma poll_loop_stuck:
  assumes "\<And>s. s \<in> I \<Longrightarrow> \<exists>s'. batches_retrieve c j s = (Inr (Completed, None), s') \<and> s' \<in> I"
    and "s \<in> I"
  shows "poll_loop c lib j s = None"
  using assms poll_loop_never_returns [of I c j lib s] by (cases "poll_loop c lib j s") auto

lemma retry_call_diverges: "f s = None \<Longrightarrow> retry_call m k f s = None"
  by (simp add: retry_call.simps)

lemma retry_call_returns: "f s = Some (Inr v, s') \<Longrightarrow> retry_call m k f s = Some (Inr v, s')"
  by (simp add: retry_call.simps)



text \<open>
  C10: a poll that reports \<open>completed\<close> with no output file id neither returns nor
  raises: the loop polls again. When the file is uploaded and the job created, and from
  then on every poll of the job gives that answer, \<open>_process_one_batch\<close> never ends:
  it returns no result and raises no exception.
\<close>

theorem completed_without_output_never_ends:
  assumes "files_create client (''batch_'' @ uuid @ ''_'' @ str_nat batch_idx @ ''.jsonl'') batch s = (Inr input_file, s1)"
    and "batches_create client input_file s1 = (Inr job_id, s2)"
    and "s2 \<in> I"
    and "\<forall>s \<in> I. \<exists>s'. batches_retrieve client job_id s = (Inr (Completed, None), s') \<and> s' \<in> I"
  shows "(\<forall>t t'. batches_retrieve client job_id t = (Inr (Completed, None), t') \<longrightarrow>
            poll_loop client lib job_id t = poll_loop client lib job_id t') \<and>
         process_one_batch client lib uuid batch_idx batch s = None"
proof -
  have again: "poll_loop client lib job_id t = poll_loop client lib job_id t'"
    if "batches_retrieve client job_id t = (Inr (Completed, None), t')" for t t'
    using that by (subst poll_loop.simps) (simp add: ready_def)
  have "poll_loop client lib job_id s2 = None"
    using assms(3,4) by (intro poll_loop_stuck [of I]) auto
  with assms(1,2) have "process_attempt client lib uuid batch_idx batch s = None"
    by (simp add: process_attempt_def)
  then have "process_one_batch client lib uuid batch_idx batch s = None"
    by (simp add: process_one_batch_def retry_call_diverges)
  with again show ?thesis by blast
qed

theorem completed_without_output_never_ends_witness:
  "process_one_batch (scripted_client completed_without_output one_result) std_lib run_id 0 [] 0 = None"
  using completed_without_output_never_ends [of "scripted_client completed_without_output one_result"
      run_id 0 "[]" 0 "''file-in''" 0 "''job''" 1 UNIV std_lib]
  by (simp add: scripted_client_def completed_without_output_def)

lemmas provider_eval = scripted_client_def process_one_batch_def process_attempt_def
  retry_call.simps poll_loop.simps ready_def

lemmas assemble_eval = assemble_def load_lines_def parse_line_def sorted_by_custom_id_def
  result_embeddings_def bind_exn_def




section \<open>Result assembly\<close>

lemma map_exn_Inr: "(\<And>x. x \<in> set xs \<Longrightarrow> f x = Inr (g x)) \<Longrightarrow> map_exn f xs = Inr (map g xs)"
  by (induction xs) auto

lemma map_exn_Inl:
  "x \<in> set xs \<Longrightarrow> f x = Inl e \<Longrightarrow> \<exists>e'. map_exn f xs = Inl e'"
  by (induction xs) (auto split: sum.splits)

lemma map_exn_parse_line_None:
  "None \<in> set ls \<Longrightarrow> map_exn parse_line ls = Inl JSONDecodeError"
  by (induction ls) (auto simp: parse_line_def split: sum.splits option.splits)

lemma map_exn_parse_line_Some: "map_exn parse_line (map Some records) = Inr records"
  by (induction records) (simp_all add: parse_line_def)

lemma load_lines_Some: "records \<noteq> [] \<Longrightarrow> load_lines (map Some records) = Inr records"
  by (simp add: load_lines_def map_exn_parse_line_Some)

lemma insort_key_map:
  "insort_key g (h x) (map h ys) = map h (insort_key (\<lambda>y. g (h y)) x ys)"
  by (induction ys) auto

lemma sort_key_map: "sort_key g (map h xs) = map h (sort_key (\<lambda>y. g (h y)) xs)"
  by (induction xs) (auto simp: insort_key_map)

lemma sorted_by_custom_id_strings:
  assumes "\<And>r. r \<in> set records \<Longrightarrow> readable_result r"
  shows "sorted_by_custom_id lib records = Inr (sort_key custom_id_of records)"
proof -
  define key where "key r = (case subscript r ''custom_id'' of Inr k \<Rightarrow> k | Inl e \<Rightarrow> JNull)" for r
  have key: "subscript r ''custom_id'' = Inr (key r)" "is_JStr (key r)" if "r \<in> set records" for r
    using assms [OF that] by (auto simp: readable_result_def key_def split: sum.splits)
  have keys: "map_exn (\<lambda>r. subscript r ''custom_id'') records = Inr (map key records)"
    by (rule map_exn_Inr) (simp add: key)
  have zip: "zip (map key records) records = map (\<lambda>r. (key r, r)) records"
    by (induction records) auto
  have cid: "(\<lambda>r. str_of (key r)) = custom_id_of"
    by (auto simp: key_def custom_id_of_def split: sum.splits)
  show ?thesis
    by (simp add: sorted_by_custom_id_def bind_exn_def keys list_all_iff key(2) zip
        sort_key_map comp_def cid)
qed

lemma readable_embeddings: "readable_result r \<Longrightarrow> result_embeddings r = Inr (embeddings_of r)"
  by (auto simp: readable_result_def embeddings_of_def split: sum.splits)

lemma assemble_readable:
  assumes "records \<noteq> []" and "\<And>r. r \<in> set records \<Longrightarrow> readable_result r"
  shows "assemble lib (map Some records) =
           Inr (concat (map embeddings_of (sort_key custom_id_of records)))"
proof -
  have sorted: "sorted_by_custom_id lib records = Inr (sort_key custom_id_of records)"
    using assms(2) by (rule sorted_by_custom_id_strings)
  have "map_exn result_embeddings (sort_key custom_id_of records) =
        Inr (map embeddings_of (sort_key custom_id_of records))"
    using assms(2) by (intro map_exn_Inr) (simp add: readable_embeddings)
  with sorted assms(1) show ?thesis
    by (simp add: assemble_def bind_exn_def load_lines_Some)
qed

text \<open>
  C6, amended. Result assembly raises \<open>JSONDecodeError\<close> when a line of the output is
  not JSON or the output is empty, and raises when a record has no \<open>custom_id\<close>. It does
  not compare a \<open>custom_id\<close> with the ids of the run: when every record has a string
  \<open>custom_id\<close>, whatever it is, and embeddings under \<open>response.body.data\<close>, the
  embeddings are returned, in the order of the records sorted by \<open>custom_id\<close>.
\<close>

theorem result_assembly:
  "(None \<in> set output_content \<or> output_content = [] \<longrightarrow>
      assemble lib output_content = Inl JSONDecodeError) \<and>
   (output_content = map Some records \<and> r \<in> set records \<and>
    subscript r ''custom_id'' = Inl e \<longrightarrow>
      (\<exists>e'. assemble lib output_content = Inl e')) \<and>
   (output_content = map Some records \<and> records \<noteq> [] \<and>
    (\<forall>r \<in> set records. readable_result r) \<longrightarrow>
      assemble lib output_content =
        Inr (concat (map embeddings_of (sort_key custom_id_of records))))"
proof (intro conjI impI)
  assume "None \<in> set output_content \<or> output_content = []"
  then show "assemble lib output_content = Inl JSONDecodeError"
    by (auto simp: assemble_def load_lines_def bind_exn_def map_exn_parse_line_None)
next
  assume a: "output_content = map Some records \<and> r \<in> set records \<and>
    subscript r ''custom_id'' = Inl e"
  then have "records \<noteq> []" by auto
  then have "load_lines output_content = Inr records" using a by (simp add: load_lines_Some)
  moreover from a obtain e' where "map_exn (\<lambda>r. subscript r ''custom_id'') records = Inl e'"
    using map_exn_Inl [of r records "\<lambda>r. subscript r ''custom_id''" e] by blast
  ultimately show "\<exists>e'. assemble lib output_content = Inl e'"
    by (simp add: assemble_def bind_exn_def sorted_by_custom_id_def)
next
  assume a: "output_content = map Some records \<and> records \<noteq> [] \<and>
    (\<forall>r \<in> set records. readable_result r)"
  then show "assemble lib output_content =
        Inr (concat (map embeddings_of (sort_key custom_id_of records)))"
    using assemble_readable [of records lib] by simp
qed

text \<open>
  C6, as stated, fails: the batch holds one request, whose \<open>custom_id\<close> ends in \<open>_0_0\<close>,
  and the output holds one line with the \<open>custom_id\<close> of another run. No error is
  raised: the line's embedding is returned.
\<close>

theorem unknown_custom_id_is_accepted:
  "request_iterator [''hello''] ''text-embedding-3-small'' run_id 0 2048 =
     Inr [\<lparr>req_custom_id = ''batch_0f8fad5bd9cb469fa16570867728950e_0_0'', req_method = ''POST'',
           req_url = ''/v1/embeddings'', req_model = ''text-embedding-3-small'',
           req_input = [''hello'']\<rparr>] \<and>
   process_one_batch (scripted_client always_completed
       [Some (JObj [(''custom_id'', JStr ''batch_of_another_run_7_4096''),
                    (''response'', JObj [(''body'', JObj [(''data'',
                       JArr [JObj [(''embedding'', JArr [JFloat 25 (-2), JFloat (-5) (-1)])]])])])])])
     std_lib run_id 0
     [\<lparr>req_custom_id = ''batch_0f8fad5bd9cb469fa16570867728950e_0_0'', req_method = ''POST'',
       req_url = ''/v1/embeddings'', req_model = ''text-embedding-3-small'',
       req_input = [''hello'']\<rparr>] 0 =
     Some (Inr [JArr [JFloat 25 (-2), JFloat (-5) (-1)]], 1)"
  by (simp add: provider_eval assemble_eval always_completed_def
      request_iterator_def texts_iterator_def texts_range.simps make_request_def
      make_custom_id_def str_nat.simps digit_char_def run_id_def)

theorem result_assembly_witness:
  "assemble std_lib [None] = Inl JSONDecodeError \<and>
   assemble std_lib [Some (JObj [(''response'', JNull)])] = Inl (KeyError ''custom_id'') \<and>
   readable_result (JObj [(''custom_id'', JStr ''b''), (''response'', JObj [(''body'', JObj [(''data'',
                       JArr [JObj [(''embedding'', JInt 2)]])])])]) \<and>
   readable_result (JObj [(''custom_id'', JStr ''a''), (''response'', JObj [(''body'', JObj [(''data'',
                       JArr [JObj [(''embedding'', JInt 1)]])])])]) \<and>
   assemble std_lib
     [Some (JObj [(''custom_id'', JStr ''b''), (''response'', JObj [(''body'', JObj [(''data'',
                       JArr [JObj [(''embedding'', JInt 2)]])])])]),
      Some (JObj [(''custom_id'', JStr ''a''), (''response'', JObj [(''body'', JObj [(''data'',
                       JArr [JObj [(''embedding'', JInt 1)]])])])])] = Inr [JInt 1, JInt 2]"
  using result_assembly [of "[None]" std_lib "[]" JNull TypeError]
    result_assembly [of "[Some (JObj [(''response'', JNull)])]" std_lib
      "[JObj [(''response'', JNull)]]" "JObj [(''response'', JNull)]" "KeyError ''custom_id''"]
    result_assembly [of _ std_lib
     "[JObj [(''custom_id'', JStr ''b''), (''response'', JObj [(''body'', JObj [(''data'',
                       JArr [JObj [(''embedding'', JInt 2)]])])])],
      JObj [(''custom_id'', JStr ''a''), (''response'', JObj [(''body'', JObj [(''data'',
                       JArr [JObj [(''embedding'', JInt 1)]])])])]]" JNull TypeError]
  by (simp add: assemble_eval readable_result_def embeddings_of_def custom_id_of_def)

section \<open>Orchestrator\<close>

lemmas planner_eval = batch_iterator_def get_token_count_def rough_estimate_def
  yield_batch_def request_iterator_def texts_iterator_def texts_range.simps gen_cons_def
  make_request_def make_custom_id_def str_nat.simps digit_char_def run_id_def

lemma batches_return_Cons:
  "batches_return client lib uuid (b # bs) s ess s' \<longleftrightarrow>
     (\<exists>embs s1 ess'. process_one_batch client lib uuid (fst b) (snd b) s = Some (Inr embs, s1) \<and>
        ess = embs # ess' \<and> batches_return client lib uuid bs s1 ess' s')"
  by (auto split: option.splits sum.splits list.splits prod.splits)


lemma process_batches_fails:
  "batches_return client lib uuid pre s ess s1 \<Longrightarrow>
   process_one_batch client lib uuid (fst b) (snd b) s1 = Some (Inl e, s') \<Longrightarrow>
   process_batches client lib uuid (pre @ b # rest) ending s = Some (Inl e, s')"
proof (induction pre arbitrary: s ess)
  case Nil
  then show ?case by simp
next
  case (Cons p pre)
  from Cons.prems(1) obtain embs s2 ess' where
    step: "process_one_batch client lib uuid (fst p) (snd p) s = Some (Inr embs, s2)"
    and tail: "batches_return client lib uuid pre s2 ess' s1"
    unfolding batches_return_Cons by blast
  from Cons.IH [OF tail Cons.prems(2)] step show ?case by simp
qed



text \<open>
  C7: whatever \<open>generate_openai_batch_embeddings\<close> hands to its caller is a value, never
  an exception. When the synchronous path raises, after its retries, the value is
  \<open>None\<close>; when the asynchronous path raises, the value is \<open>None\<close>; in particular when
  some batch fails after earlier batches returned their embeddings, the value is \<open>None\<close>
  and not the embeddings gathered so far.
\<close>

theorem no_exception_escapes:
  "(generate_openai_batch_embeddings tk client lib uuid model texts s = Some (r, s') \<longrightarrow>
      (\<exists>v. r = Inr v)) \<and>
   (text_length texts < 500000 \<and>
    request_sync_embedding client texts model s = Some (Inl e, s') \<longrightarrow>
      generate_openai_batch_embeddings tk client lib uuid model texts s = Some (Inr None, s')) \<and>
   (\<not> text_length texts < 500000 \<and>
    request_async_embedding tk client lib uuid model texts 1000000 s = Some (Inl e, s') \<longrightarrow>
      generate_openai_batch_embeddings tk client lib uuid model texts s = Some (Inr None, s')) \<and>
   (\<not> text_length texts < 500000 \<and>
    fst (batch_iterator tk texts model uuid 1000000 2048) = pre @ b # rest \<and>
    batches_return client lib uuid pre s ess s1 \<and>
    process_one_batch client lib uuid (fst b) (snd b) s1 = Some (Inl e, s') \<longrightarrow>
      generate_openai_batch_embeddings tk client lib uuid model texts s = Some (Inr None, s'))"
proof (intro conjI impI)
  assume "generate_openai_batch_embeddings tk client lib uuid model texts s = Some (r, s')"
  then obtain r0 where "r = except_return_None r0"
    by (auto simp: generate_openai_batch_embeddings_def)
  then show "\<exists>v. r = Inr v"
    by (cases r0) (simp_all add: except_return_None_def)
next
  assume "text_length texts < 500000 \<and>
    request_sync_embedding client texts model s = Some (Inl e, s')"
  then show "generate_openai_batch_embeddings tk client lib uuid model texts s = Some (Inr None, s')"
    by (simp add: generate_openai_batch_embeddings_def except_return_None_def)
next
  assume "\<not> text_length texts < 500000 \<and>
    request_async_embedding tk client lib uuid model texts 1000000 s = Some (Inl e, s')"
  then show "generate_openai_batch_embeddings tk client lib uuid model texts s = Some (Inr None, s')"
    by (simp add: generate_openai_batch_embeddings_def except_return_None_def)
next
  assume a: "\<not> text_length texts < 500000 \<and>
    fst (batch_iterator tk texts model uuid 1000000 2048) = pre @ b # rest \<and>
    batches_return client lib uuid pre s ess s1 \<and>
    process_one_batch client lib uuid (fst b) (snd b) s1 = Some (Inl e, s')"
  then have "request_async_embedding tk client lib uuid model texts 1000000 s = Some (Inl e, s')"
    using process_batches_fails [of client lib uuid pre s ess s1 b e s' rest]
    by (simp add: request_async_embedding_def Let_def)
  with a show "generate_openai_batch_embeddings tk client lib uuid model texts s = Some (Inr None, s')"
    by (simp add: generate_openai_batch_embeddings_def except_return_None_def)
qed

lemma text_length_five: "text_length five_sentences < 500000"
  by (simp add: text_length_def five_sentences_def)

lemma text_length_long: "text_length long_and_short = 4000004"
  by (simp add: text_length_def long_and_short_def)

lemma plan_long_and_short:
  "batch_iterator no_tiktoken long_and_short ''text-embedding-3-small'' run_id 1000000 2048 =
     ([(0, [\<lparr>req_custom_id = ''batch_0f8fad5bd9cb469fa16570867728950e_0_0'', req_method = ''POST'',
             req_url = ''/v1/embeddings'', req_model = ''text-embedding-3-small'',
             req_input = [replicate 4000000 CHR ''a'']\<rparr>]),
       (1, [\<lparr>req_custom_id = ''batch_0f8fad5bd9cb469fa16570867728950e_1_0'', req_method = ''POST'',
             req_url = ''/v1/embeddings'', req_model = ''text-embedding-3-small'',
             req_input = [''bbbb'']\<rparr>])], None)"
  by (simp add: planner_eval no_tiktoken_def long_and_short_def)

lemma sync_down:
  "request_sync_embedding (scripted_client expires_later one_result) five_sentences
     ''text-embedding-3-small'' 0 = Some (Inl (RetryError (HTTPError ''503'')), 0)"
  by (simp add: request_sync_embedding_def sync_attempt_def scripted_client_def retry_call.simps)

lemma first_batch_done:
  "process_one_batch (scripted_client expires_later one_result) std_lib run_id idx batch 0 =
     Some (Inr [JArr [JFloat 25 (-2), JFloat (-5) (-1)]], 1)"
  by (simp add: provider_eval assemble_eval expires_later_def one_result_def)

lemma second_batch_expires:
  "process_one_batch (scripted_client expires_later one_result) std_lib run_id idx batch (Suc 0) =
     Some (Inl (RetryError (RuntimeError ''Batch Job Failed: expired'')), 6)"
  by (simp add: provider_eval expires_later_def)

theorem no_exception_escapes_witness:
  "text_length five_sentences < 500000 \<and>
   request_sync_embedding (scripted_client expires_later one_result) five_sentences
     ''text-embedding-3-small'' 0 = Some (Inl (RetryError (HTTPError ''503'')), 0) \<and>
   generate_openai_batch_embeddings no_tiktoken (scripted_client expires_later one_result) std_lib
     run_id ''text-embedding-3-small'' five_sentences 0 = Some (Inr None, 0) \<and>
   \<not> text_length long_and_short < 500000 \<and>
   length (fst (batch_iterator no_tiktoken long_and_short ''text-embedding-3-small'' run_id 1000000 2048)) = 2 \<and>
   process_one_batch (scripted_client expires_later one_result) std_lib run_id 0
     (snd (fst (batch_iterator no_tiktoken long_and_short ''text-embedding-3-small'' run_id 1000000 2048) ! 0)) 0 =
     Some (Inr [JArr [JFloat 25 (-2), JFloat (-5) (-1)]], 1) \<and>
   process_one_batch (scripted_client expires_later one_result) std_lib run_id 1
     (snd (fst (batch_iterator no_tiktoken long_and_short ''text-embedding-3-small'' run_id 1000000 2048) ! 1)) 1 =
     Some (Inl (RetryError (RuntimeError ''Batch Job Failed: expired'')), 6) \<and>
   generate_openai_batch_embeddings no_tiktoken (scripted_client expires_later one_result) std_lib
     run_id ''text-embedding-3-small'' long_and_short 0 = Some (Inr None, 6)"
  using no_exception_escapes [of no_tiktoken "scripted_client expires_later one_result" std_lib
      run_id "''text-embedding-3-small''" five_sentences 0 "Inr None" 0 "RetryError (HTTPError ''503'')"
      "[]" "(0, [])" "[]" "[]" 0]
    no_exception_escapes [of no_tiktoken "scripted_client expires_later one_result" std_lib
      run_id "''text-embedding-3-small''" long_and_short 0 "Inr None" 6
      "RetryError (RuntimeError ''Batch Job Failed: expired'')"
      "[(0, [\<lparr>req_custom_id = ''batch_0f8fad5bd9cb469fa16570867728950e_0_0'', req_method = ''POST'',
             req_url = ''/v1/embeddings'', req_model = ''text-embedding-3-small'',
             req_input = [replicate 4000000 CHR ''a'']\<rparr>])]"
      "(1, [\<lparr>req_custom_id = ''batch_0f8fad5bd9cb469fa16570867728950e_1_0'', req_method = ''POST'',
             req_url = ''/v1/embeddings'', req_model = ''text-embedding-3-small'',
             req_input = [''bbbb'']\<rparr>])" "[]"
      "[[JArr [JFloat 25 (-2), JFloat (-5) (-1)]]]" 1]
  by (simp add: text_length_five text_length_long plan_long_and_short sync_down
      first_batch_done second_batch_expires)

section \<open>Order of the returned embeddings\<close>

lemma embedding_data_entries:
  "map_exn (\<lambda>data. subscript data ''embedding'')
     (map (\<lambda>text. JObj [(''embedding'', embedding_of text)]) ts) = Inr (map embedding_of ts)"
  by (induction ts) simp_all

lemma result_line_embeddings:
  "result_embeddings (result_line r) = Inr (map embedding_of (req_input r))"
  by (simp add: result_embeddings_def result_line_def embedding_data_def bind_exn_def
      embedding_data_entries)

lemma result_line_readable: "readable_result (result_line r)"
  by (simp add: readable_result_def result_line_embeddings) (simp add: result_line_def)

lemma result_line_custom_id: "custom_id_of (result_line r) = req_custom_id r"
  by (simp add: custom_id_of_def result_line_def)

lemma result_line_embeddings_of: "embeddings_of (result_line r) = map embedding_of (req_input r)"
  by (simp add: embeddings_of_def result_line_embeddings)

lemma assemble_result_lines:
  assumes "batch \<noteq> []"
  shows "assemble lib (map (\<lambda>r. Some (result_line r)) batch) =
           Inr (concat (map (\<lambda>r. map embedding_of (req_input r)) (sort_key req_custom_id batch)))"
proof -
  have "assemble lib (map Some (map result_line batch)) =
          Inr (concat (map embeddings_of (sort_key custom_id_of (map result_line batch))))"
    using assms by (intro assemble_readable) (auto simp: result_line_readable)
  then show ?thesis
    by (simp add: sort_key_map result_line_custom_id comp_def result_line_embeddings_of)
qed

lemma echo_client_batch:
  assumes "batch \<noteq> []"
  shows "process_one_batch echo_client lib uuid batch_idx batch s =
           Some (Inr (concat (map (\<lambda>r. map embedding_of (req_input r))
                        (sort_key req_custom_id (rev batch)))), batch)"
  using assms assemble_result_lines [of "rev batch" lib]
  by (simp add: process_one_batch_def process_attempt_def echo_client_def
      retry_call.simps poll_loop.simps ready_def)

lemma batch_loop_one_batch:
  assumes "\<And>t. t \<in> set texts \<Longrightarrow> t2t t = Inr (cnt t) \<and> 0 \<le> cnt t"
    and "ctoks + sum_list (map cnt texts) \<le> limit"
  shows "batch_loop t2t model uuid limit cs texts cur ctoks b =
           (if cur @ texts \<noteq> [] then yield_batch (cur @ texts) model uuid b cs ([], None)
            else ([], None))"
  using assms
proof (induction texts arbitrary: cur ctoks)
  case Nil
  then show ?case by simp
next
  case (Cons t texts)
  have t: "t2t t = Inr (cnt t)" "0 \<le> cnt t" using Cons.prems(1) by auto
  have nonneg: "0 \<le> sum_list (map cnt texts)"
    using Cons.prems(1) by (intro sum_list_nonneg) auto
  with Cons.prems(2) have fits: "\<not> ctoks + cnt t > limit" by simp
  have "batch_loop t2t model uuid limit cs texts (cur @ [t]) (ctoks + cnt t) b =
          (if (cur @ [t]) @ texts \<noteq> [] then yield_batch ((cur @ [t]) @ texts) model uuid b cs ([], None)
           else ([], None))"
    using Cons.prems by (intro Cons.IH) (auto simp: add.assoc)
  with t fits show ?case by simp
qed

lemma six_chunks_out_of_order:
  assumes "length texts = 10241"
    and "sum_list (map (\<lambda>t. int (length t) div 4) texts) \<le> 1000000"
  shows "\<exists>s'. request_async_embedding no_tiktoken echo_client lib run_id model texts 1000000 s =
           Some (Inr (map embedding_of
             (take 2048 texts @ drop 10240 texts @ take 8192 (drop 2048 texts))), s')"
proof -
  have counter: "get_token_count no_tiktoken model = rough_estimate"
    by (simp add: get_token_count_def no_tiktoken_def)
  have texts: "texts \<noteq> []" using assms(1) by auto
  have plan: "batch_iterator no_tiktoken texts model run_id 1000000 2048 =
      yield_batch texts model run_id 0 2048 ([], None)"
    unfolding batch_iterator_def counter
    using batch_loop_one_batch [of texts rough_estimate "\<lambda>t. int (length t) div 4" 0 1000000
        model run_id 2048 "[]" 0] assms(2) texts
    by (simp add: rough_estimate_def)
  define batch where "batch = map (make_request model run_id 0) (texts_range 2048 0 texts)"
  have req: "request_iterator texts model run_id 0 2048 = Inr batch"
    by (simp add: request_iterator_def texts_iterator_def batch_def)
  have sorted: "map req_input (sort_key req_custom_id (rev batch)) =
      [take 2048 texts, take 2048 (drop 10240 texts), take 2048 (drop 2048 texts),
       take 2048 (drop 4096 texts), take 2048 (drop 6144 texts), take 2048 (drop 8192 texts)]"
    by (simp add: batch_def six_chunks [OF assms(1)] make_request_def custom_id_eval)
  have pieces: "take 8192 ys = take 2048 ys @ take 2048 (drop 2048 ys) @
      take 2048 (drop 4096 ys) @ take 2048 (drop 6144 ys)" for ys :: "string list"
    using take_add [of 2048 6144 ys] take_add [of 2048 4096 "drop 2048 ys"]
      take_add [of 2048 2048 "drop 4096 ys"]
    by simp
  have last_chunk: "take 2048 (drop 10240 texts) = drop 10240 texts"
    using assms(1) by simp
  have flat: "concat (map (\<lambda>r. map embedding_of (req_input r)) (sort_key req_custom_id (rev batch))) =
        map embedding_of (concat (map req_input (sort_key req_custom_id (rev batch))))"
    by (simp add: map_concat comp_def)
  have order: "concat (map req_input (sort_key req_custom_id (rev batch))) =
      take 2048 texts @ drop 10240 texts @ take 8192 (drop 2048 texts)"
    unfolding sorted by (simp add: pieces [of "drop 2048 texts"] last_chunk)
  have "batch \<noteq> []"
    by (simp add: batch_def six_chunks [OF assms(1)])
  then have "process_one_batch echo_client lib run_id 0 batch s =
      Some (Inr (map embedding_of
        (take 2048 texts @ drop 10240 texts @ take 8192 (drop 2048 texts))), batch)"
    by (simp add: echo_client_batch flat order)
  then show ?thesis
    by (simp add: request_async_embedding_def plan yield_batch_def req gen_cons_def)
qed

text \<open>
  C1: the asynchronous path is to return one embedding per text, each at the position
  of its text in the input. With 10241 texts in one batch and a provider
  that answers every chunk with one embedding per text in the chunk's order, 10241
  embeddings come back, but the one at position 2048 is that of the last text: the
  chunk at offset 10240 is sorted before the chunk at offset 2048.
\<close>

theorem embeddings_out_of_input_order:
  "\<exists>embeddings s'.
     request_async_embedding no_tiktoken echo_client std_lib run_id ''text-embedding-3-small''
       many_texts 1000000 [] = Some (Inr embeddings, s') \<and>
     length many_texts = 10241 \<and>
     length embeddings = 10241 \<and>
     many_texts ! 2048 = ''first'' \<and>
     embeddings ! 2048 = embedding_of ''last''"
proof -
  have len: "length many_texts = 10241" by (simp add: many_texts_def)
  have fits: "sum_list (map (\<lambda>t. int (length t) div 4) many_texts) \<le> 1000000"
    by (simp add: many_texts_def sum_list_replicate)
  from six_chunks_out_of_order [OF len fits, of std_lib "''text-embedding-3-small''" "[]"]
  obtain s' where run: "request_async_embedding no_tiktoken echo_client std_lib run_id
       ''text-embedding-3-small'' many_texts 1000000 [] =
     Some (Inr (map embedding_of
       (take 2048 many_texts @ drop 10240 many_texts @ take 8192 (drop 2048 many_texts))), s')"
    by blast
  have "(take 2048 many_texts @ drop 10240 many_texts @ take 8192 (drop 2048 many_texts)) ! 2048 = ''last''"
    by (simp add: many_texts_def nth_append)
  moreover have "many_texts ! 2048 = ''first''"
    by (simp add: many_texts_def nth_append)
  ultimately show ?thesis
    using run len by (auto simp: nth_append)
qed

text \<open>
  When the first text alone is over the limit, the empty batch is submitted first; the
  provider above answers it with an empty output, which is not JSON, and after five
  attempts the run raises.
\<close>

lemma empty_batch_raises:
  "request_async_embedding no_tiktoken echo_client std_lib run_id ''text-embedding-3-small''
     [replicate 4000004 CHR ''a''] 1000000 [] = Some (Inl (RetryError JSONDecodeError), [])"
  by (simp add: request_async_embedding_def planner_eval no_tiktoken_def
      process_one_batch_def process_attempt_def echo_client_def retry_call.simps
      poll_loop.simps ready_def assemble_def load_lines_def bind_exn_def)

section \<open>Choice of the path\<close>












end
